theory Spec2Isabelle
  imports
    Complex_Main
    "HOL-Library.AList"
    "HOL-Library.Sublist"
    "HOL-Library.Char_ord"
    "HOL-Library.List_Lexorder"
begin

section \<open>Python values, dictionaries and exceptions\<close>

text \<open>
  The ETL pipeline of \<^verbatim>\<open>momo-sms-analyzer/etl\<close> passes each transaction along as a
  Python \<^verbatim>\<open>dict\<close> from field names to dynamically typed values. The values that occur
  are \<^verbatim>\<open>None\<close>, integers, floats and strings. A float is modelled by the rational number
  it denotes (every finite float is one); NaN and the infinities are outside the model.
  Strings are byte strings, so the model covers ASCII text.
\<close>

datatype pyval = PNone | PInt int | PFloat rat | PStr string

text \<open>The exceptions that the modelled code can raise.\<close>

datatype exc =
  KeyError | TypeError | ValueError | AttributeError | OverflowError | OSError
  | IntegrityError | ParseError | FileNotFoundError

text \<open>
  A \<^verbatim>\<open>dict\<close> keeps its keys in insertion order; assigning to an existing key keeps the
  key's place, assigning to a new key appends it. That is \<^const>\<open>AList.update\<close> on an
  association list, and lookup is \<^const>\<open>map_of\<close>.
\<close>

type_synonym dict = "(string \<times> pyval) list"

text \<open>\<^verbatim>\<open>d.get(k, default)\<close>\<close>

definition dict_get :: "dict \<Rightarrow> string \<Rightarrow> pyval \<Rightarrow> pyval" where
  "dict_get d k dflt = (case map_of d k of None \<Rightarrow> dflt | Some v \<Rightarrow> v)"

text \<open>\<^verbatim>\<open>d[k]\<close>, which raises \<^verbatim>\<open>KeyError\<close> on a missing key.\<close>

definition dict_item :: "dict \<Rightarrow> string \<Rightarrow> exc + pyval" where
  "dict_item d k = (case map_of d k of None \<Rightarrow> Inl KeyError | Some v \<Rightarrow> Inr v)"


text \<open>Truth value testing: \<^verbatim>\<open>None\<close>, zero and the empty string are false.\<close>

fun truthy :: "pyval \<Rightarrow> bool" where
  "truthy PNone = False"
| "truthy (PInt i) = (i \<noteq> 0)"
| "truthy (PFloat x) = (x \<noteq> 0)"
| "truthy (PStr s) = (s \<noteq> [])"

text \<open>The number a numeric value denotes.\<close>

fun num_of :: "pyval \<Rightarrow> rat option" where
  "num_of (PInt i) = Some (of_int i)"
| "num_of (PFloat x) = Some x"
| "num_of _ = None"

text \<open>
  The comparisons \<^verbatim>\<open>a < b\<close>, \<^verbatim>\<open>a > b\<close> and \<^verbatim>\<open>a <= b\<close>: numbers compare by value (Python compares
  an int with a float exactly), strings lexicographically, and every other pairing raises
  \<^verbatim>\<open>TypeError\<close>.
\<close>

definition py_lt :: "pyval \<Rightarrow> pyval \<Rightarrow> exc + bool" where
  "py_lt a b =
     (case (num_of a, num_of b) of
        (Some x, Some y) \<Rightarrow> Inr (x < y)
      | _ \<Rightarrow> (case (a, b) of (PStr s, PStr t) \<Rightarrow> Inr (s < t) | _ \<Rightarrow> Inl TypeError))"

definition py_gt :: "pyval \<Rightarrow> pyval \<Rightarrow> exc + bool" where
  "py_gt a b = py_lt b a"

definition py_le :: "pyval \<Rightarrow> pyval \<Rightarrow> exc + bool" where
  "py_le a b =
     (case (num_of a, num_of b) of
        (Some x, Some y) \<Rightarrow> Inr (x \<le> y)
      | _ \<Rightarrow> (case (a, b) of (PStr s, PStr t) \<Rightarrow> Inr (s \<le> t) | _ \<Rightarrow> Inl TypeError))"

subsection \<open>String operations\<close>

text \<open>\<^verbatim>\<open>sub in s\<close> on strings: \<open>sub\<close> occurs in \<open>s\<close> as a contiguous block.\<close>

fun contains :: "string \<Rightarrow> string \<Rightarrow> bool" where
  "contains sub [] = (sub = [])"
| "contains sub (c # cs) = (prefix sub (c # cs) \<or> contains sub cs)"

text \<open>\<^verbatim>\<open>s.lower()\<close> on ASCII text.\<close>

definition lower_char :: "char \<Rightarrow> char" where
  "lower_char c =
     (case map_of (zip ''ABCDEFGHIJKLMNOPQRSTUVWXYZ'' ''abcdefghijklmnopqrstuvwxyz'') c of
        None \<Rightarrow> c
      | Some l \<Rightarrow> l)"

definition lower :: "string \<Rightarrow> string" where
  "lower s = map lower_char s"

text \<open>\<^verbatim>\<open>s.replace('Z', '+00:00')\<close>\<close>

definition replace_Z :: "string \<Rightarrow> string" where
  "replace_Z s = concat (map (\<lambda>c. if c = CHR ''Z'' then ''+00:00'' else [c]) s)"

section \<open>Library functions outside the repository\<close>

text \<open>
  The pipeline calls into the Python standard library and \<^verbatim>\<open>dateutil\<close> for hashing, float
  parsing and printing, and date handling. These are not code of the repository; the
  model takes them as parameters, collected in one record, and every theorem holds for
  all of them.
\<close>

record pylib =
  md5_hexdigest :: "string \<Rightarrow> string"
    \<comment> \<open>\<^verbatim>\<open>hashlib.md5(s.encode()).hexdigest()\<close>\<close>
  float_str :: "rat \<Rightarrow> string"
    \<comment> \<open>\<^verbatim>\<open>str(x)\<close> for a float \<open>x\<close>\<close>
  float_parse :: "string \<Rightarrow> rat option"
    \<comment> \<open>\<^verbatim>\<open>float(s)\<close> for a string; \<open>None\<close> when it raises \<^verbatim>\<open>ValueError\<close>\<close>
  dateutil_parse :: "string \<Rightarrow> exc + string"
    \<comment> \<open>\<^verbatim>\<open>date_parser.parse(s).isoformat()\<close>, or the exception raised\<close>
  fromisoformat_hour :: "string \<Rightarrow> nat option"
    \<comment> \<open>\<^verbatim>\<open>datetime.fromisoformat(s).hour\<close>; \<open>None\<close> when it raises\<close>
  fromtimestamp :: "rat \<Rightarrow> exc + string"
    \<comment> \<open>\<^verbatim>\<open>datetime.fromtimestamp(x).isoformat()\<close>, or the exception raised\<close>

section \<open>Configuration (\<^verbatim>\<open>etl/config.py\<close>)\<close>

definition TRANSACTION_CATEGORIES :: "(string \<times> string list) list" where
  "TRANSACTION_CATEGORIES =
     [(''TRANSFER'', [''transfer'', ''send'', ''sent'']),
      (''DEPOSIT'', [''deposit'', ''receive'', ''received'', ''top up'', ''topup'']),
      (''WITHDRAWAL'', [''withdraw'', ''withdrawal'', ''cash out'', ''cashout'']),
      (''PAYMENT'', [''payment'', ''pay'', ''purchase'', ''buy'']),
      (''AIRTIME'', [''airtime'', ''credit'', ''recharge'']),
      (''BILL'', [''bill'', ''utility'', ''electricity'', ''water'']),
      (''OTHER'', [])]"

definition AMOUNT_THRESHOLDS :: "(string \<times> int) list" where
  "AMOUNT_THRESHOLDS = [(''SMALL'', 1000), (''MEDIUM'', 50000), (''LARGE'', 500000)]"

section \<open>Categorizer (\<^verbatim>\<open>etl/categorize.py\<close>)\<close>

text \<open>
  The methods of \<^verbatim>\<open>TransactionCategorizer\<close>. Python's leading underscore of a private
  method is dropped from the names. A result \<open>Inl e\<close> is the exception \<open>e\<close> leaving the
  function.
\<close>

text \<open>
  The loop of \<^verbatim>\<open>_categorize_by_description\<close> over \<^verbatim>\<open>self.categories.items()\<close>: the first
  category, in the table's order, one of whose keywords occurs in the lowered description.
\<close>

fun scan_categories :: "string \<Rightarrow> (string \<times> string list) list \<Rightarrow> string" where
  "scan_categories description_lower [] = ''''"
| "scan_categories description_lower ((category, keywords) # rest) =
     (if category = ''OTHER'' then scan_categories description_lower rest
      else if list_ex (\<lambda>keyword. contains (lower keyword) description_lower) keywords
        then category
      else scan_categories description_lower rest)"

definition categorize_by_description :: "pyval \<Rightarrow> exc + string" where
  "categorize_by_description description =
     (if \<not> truthy description then Inr ''''
      else case description of
        PStr s \<Rightarrow> Inr (scan_categories (lower s) TRANSACTION_CATEGORIES)
      | _ \<Rightarrow> Inl AttributeError)"

definition categorize_by_body :: "pyval \<Rightarrow> exc + string" where
  "categorize_by_body body =
     (if \<not> truthy body then Inr ''''
      else case body of
        PStr s \<Rightarrow>
          (let body_lower = lower s in
           Inr (if contains ''you have sent'' body_lower \<or> contains ''sent to'' body_lower
                  then ''TRANSFER''
                else if contains ''you have received'' body_lower
                    \<or> contains ''received from'' body_lower
                  then ''DEPOSIT''
                else if contains ''cash out'' body_lower \<or> contains ''withdrawal'' body_lower
                  then ''WITHDRAWAL''
                else if contains ''airtime'' body_lower \<or> contains ''top up'' body_lower
                  then ''AIRTIME''
                else if contains ''payment'' body_lower \<or> contains ''paid to'' body_lower
                  then ''PAYMENT''
                else if contains ''bill'' body_lower \<or> contains ''utility'' body_lower
                  then ''BILL''
                else ''''))
      | _ \<Rightarrow> Inl AttributeError)"

text \<open>
  The last part of \<^verbatim>\<open>_infer_transaction_type\<close>, inference from the SMS body:
  \<^verbatim>\<open>transaction.get('raw_body', '').lower()\<close> raises \<^verbatim>\<open>AttributeError\<close> when the value
  stored under \<^verbatim>\<open>raw_body\<close> is not a string.
\<close>

definition infer_from_body :: "dict \<Rightarrow> exc + string" where
  "infer_from_body transaction =
     (case dict_get transaction ''raw_body'' (PStr '''') of
        PStr s \<Rightarrow>
          (let body = lower s in
           Inr (if list_ex (\<lambda>phrase. contains phrase body)
                     [''sent'', ''paid'', ''withdraw'', ''cash out'']
                  then ''DEBIT''
                else if list_ex (\<lambda>phrase. contains phrase body)
                     [''received'', ''deposit'', ''credited'']
                  then ''CREDIT''
                else ''UNKNOWN''))
      | _ \<Rightarrow> Inl AttributeError)"

text \<open>
  The middle part of \<^verbatim>\<open>_infer_transaction_type\<close>, inference from the balances: \<open>Some\<close> type
  when the rule decides, \<open>None\<close> when control falls through to the body patterns.
\<close>

definition infer_from_balance :: "pyval \<Rightarrow> pyval \<Rightarrow> exc + string option" where
  "infer_from_balance balance_before balance_after =
     (if truthy balance_before \<and> truthy balance_after then
        (case py_gt balance_after balance_before of
           Inl e \<Rightarrow> Inl e
         | Inr True \<Rightarrow> Inr (Some ''CREDIT'')
         | Inr False \<Rightarrow>
             (case py_lt balance_after balance_before of
                Inl e \<Rightarrow> Inl e
              | Inr True \<Rightarrow> Inr (Some ''DEBIT'')
              | Inr False \<Rightarrow> Inr None))
      else Inr None)"

definition infer_transaction_type :: "dict \<Rightarrow> string \<Rightarrow> exc + string" where
  "infer_transaction_type transaction category =
     (if category \<in> set [''TRANSFER'', ''WITHDRAWAL'', ''PAYMENT'', ''AIRTIME'', ''BILL'']
        then Inr ''DEBIT''
      else if category = ''DEPOSIT'' then Inr ''CREDIT''
      else
        (let balance_before = dict_get transaction ''balance_before'' (PInt 0);
             balance_after = dict_get transaction ''balance_after'' (PInt 0) in
         case infer_from_balance balance_before balance_after of
           Inl e \<Rightarrow> Inl e
         | Inr (Some ty) \<Rightarrow> Inr ty
         | Inr None \<Rightarrow> infer_from_body transaction))"

text \<open>\<^verbatim>\<open>self.amount_thresholds[name]\<close>\<close>

definition threshold :: "string \<Rightarrow> exc + pyval" where
  "threshold name =
     (case map_of AMOUNT_THRESHOLDS name of None \<Rightarrow> Inl KeyError | Some v \<Rightarrow> Inr (PInt v))"

text \<open>One \<^verbatim>\<open>amount <= self.amount_thresholds[name]\<close> test.\<close>

definition at_most :: "pyval \<Rightarrow> string \<Rightarrow> exc + bool" where
  "at_most amount name = (case threshold name of Inl e \<Rightarrow> Inl e | Inr t \<Rightarrow> py_le amount t)"

definition categorize_by_amount :: "pyval \<Rightarrow> exc + string" where
  "categorize_by_amount amount =
     (case at_most amount ''SMALL'' of
        Inl e \<Rightarrow> Inl e
      | Inr True \<Rightarrow> Inr ''SMALL''
      | Inr False \<Rightarrow>
          (case at_most amount ''MEDIUM'' of
             Inl e \<Rightarrow> Inl e
           | Inr True \<Rightarrow> Inr ''MEDIUM''
           | Inr False \<Rightarrow>
               (case at_most amount ''LARGE'' of
                  Inl e \<Rightarrow> Inl e
                | Inr True \<Rightarrow> Inr ''LARGE''
                | Inr False \<Rightarrow> Inr ''VERY_LARGE'')))"

text \<open>
  \<^verbatim>\<open>_categorize_by_time\<close> never raises: everything after the emptiness test runs inside
  \<^verbatim>\<open>try ... except Exception\<close>, which answers \<^verbatim>\<open>'UNKNOWN'\<close>.
\<close>

definition categorize_by_time :: "pylib \<Rightarrow> pyval \<Rightarrow> string" where
  "categorize_by_time L transaction_date =
     (if \<not> truthy transaction_date then ''UNKNOWN''
      else case transaction_date of
        PStr s \<Rightarrow>
          (case fromisoformat_hour L (replace_Z s) of
             None \<Rightarrow> ''UNKNOWN''
           | Some hour \<Rightarrow>
               if 5 \<le> hour \<and> hour < 12 then ''MORNING''
               else if 12 \<le> hour \<and> hour < 17 then ''AFTERNOON''
               else if 17 \<le> hour \<and> hour < 21 then ''EVENING''
               else ''NIGHT'')
      | _ \<Rightarrow> ''UNKNOWN'')"

definition categorize_transaction :: "pylib \<Rightarrow> dict \<Rightarrow> exc + dict" where
  "categorize_transaction L transaction =
     (case categorize_by_description (dict_get transaction ''description'' (PStr '''')) of
        Inl e \<Rightarrow> Inl e
      | Inr c1 \<Rightarrow>
     (case (if c1 = '''' then categorize_by_body (dict_get transaction ''raw_body'' (PStr ''''))
            else Inr c1) of
        Inl e \<Rightarrow> Inl e
      | Inr c2 \<Rightarrow>
     (let category = (if c2 = '''' then ''OTHER'' else c2);
          categorized = AList.update ''category'' (PStr category) transaction in
      case infer_transaction_type transaction category of
        Inl e \<Rightarrow> Inl e
      | Inr transaction_type \<Rightarrow>
     (let categorized = AList.update ''transaction_type'' (PStr transaction_type) categorized in
      case categorize_by_amount (dict_get transaction ''amount'' (PInt 0)) of
        Inl e \<Rightarrow> Inl e
      | Inr amount_category \<Rightarrow>
     (let categorized = AList.update ''amount_category'' (PStr amount_category) categorized;
          time_category = categorize_by_time L (dict_get transaction ''transaction_date'' (PStr ''''))
      in Inr (AList.update ''time_category'' (PStr time_category) categorized))))))"


section \<open>Field normalizer (\<^verbatim>\<open>etl/clean_normalize.py\<close>)\<close>

subsection \<open>Character classes of the regular expressions\<close>

text \<open>\<^verbatim>\<open>\d\<close>, \<^verbatim>\<open>\s\<close> and \<^verbatim>\<open>\w\<close> on ASCII text.\<close>

definition is_digit :: "char \<Rightarrow> bool" where
  "is_digit c = (let n = (of_char c :: nat) in 48 \<le> n \<and> n \<le> 57)"

definition is_space :: "char \<Rightarrow> bool" where
  "is_space c = (let n = (of_char c :: nat) in (9 \<le> n \<and> n \<le> 13) \<or> (28 \<le> n \<and> n \<le> 32))"


text \<open>\<^verbatim>\<open>s.strip()\<close>\<close>

definition strip :: "string \<Rightarrow> string" where
  "strip s = rev (dropWhile is_space (rev (dropWhile is_space s)))"


subsection \<open>Phone numbers\<close>

definition normalize_phone_number :: "pyval \<Rightarrow> string" where
  "normalize_phone_number phone =
     (case phone of
        PStr raw \<Rightarrow>
          if raw = [] then []
          else
            (let phone = filter is_digit raw in
             if prefix ''256'' phone then ''+'' @ phone
             else if prefix ''0'' phone \<and> length phone = 10 then ''+256'' @ tl phone
             else if length phone = 9 then ''+256'' @ phone
             else phone)
      | _ \<Rightarrow> [])"






subsection \<open>Amounts, dates and text\<close>





subsection \<open>Identifiers\<close>

text \<open>\<^verbatim>\<open>str(n)\<close> for an integer.\<close>

fun str_of_nat :: "nat \<Rightarrow> string" where
  "str_of_nat n =
     (if n < 10 then [''0123456789'' ! n]
      else str_of_nat (n div 10) @ [''0123456789'' ! (n mod 10)])"

definition str_of_int :: "int \<Rightarrow> string" where
  "str_of_int i = (if i < 0 then CHR ''-'' # str_of_nat (nat (- i)) else str_of_nat (nat i))"

text \<open>\<^verbatim>\<open>str(v)\<close>\<close>

definition py_str :: "pylib \<Rightarrow> pyval \<Rightarrow> string" where
  "py_str L v =
     (case v of
        PNone \<Rightarrow> ''None''
      | PInt i \<Rightarrow> str_of_int i
      | PFloat x \<Rightarrow> float_str L x
      | PStr s \<Rightarrow> s)"

text \<open>\<^verbatim>\<open>'|'.join(parts)\<close>\<close>

fun join_bar :: "string list \<Rightarrow> string" where
  "join_bar [] = []"
| "join_bar [p] = p"
| "join_bar (p # q # ps) = p @ ''|'' @ join_bar (q # ps)"

text \<open>The string that \<^verbatim>\<open>generate_transaction_id\<close> hashes.\<close>

definition data_string :: "pylib \<Rightarrow> dict \<Rightarrow> string" where
  "data_string L transaction =
     join_bar
       [py_str L (dict_get transaction ''transaction_date'' (PStr [])),
        py_str L (dict_get transaction ''amount'' (PStr [])),
        py_str L (dict_get transaction ''sender_phone'' (PStr [])),
        py_str L (dict_get transaction ''receiver_phone'' (PStr [])),
        py_str L (dict_get transaction ''description'' (PStr []))]"

definition generate_transaction_id :: "pylib \<Rightarrow> dict \<Rightarrow> string" where
  "generate_transaction_id L transaction = take 12 (md5_hexdigest L (data_string L transaction))"

subsection \<open>Cleaning and validation\<close>













section \<open>Record extractor (\<^verbatim>\<open>etl/parse_xml.py\<close>)\<close>

text \<open>
  An \<^verbatim>\<open><sms>\<close> element is its attributes, all strings. The XML reader itself
  (\<^verbatim>\<open>ET.parse\<close>, \<^verbatim>\<open>root.findall('.//sms')\<close>) is outside the repository: the model starts
  from its outcome, the list of \<^verbatim>\<open><sms>\<close> elements of the document or the exception.
\<close>

type_synonym element = "(string \<times> string) list"

text \<open>\<^verbatim>\<open>element.get(name, '')\<close>\<close>

definition attr :: "element \<Rightarrow> string \<Rightarrow> string" where
  "attr e name = (case map_of e name of None \<Rightarrow> [] | Some v \<Rightarrow> v)"

text \<open>
  \<^verbatim>\<open>int(s)\<close> for a string: surrounding whitespace, an optional sign, then decimal digits,
  where single underscores may separate digits. Anything else raises \<^verbatim>\<open>ValueError\<close>
  (\<open>None\<close>).
\<close>

definition nat_of_digits :: "string \<Rightarrow> nat" where
  "nat_of_digits ds = foldl (\<lambda>acc c. 10 * acc + (of_char c - 48)) 0 ds"

definition digit_group :: "string \<Rightarrow> bool" where
  "digit_group body =
     (body \<noteq> [] \<and> is_digit (hd body) \<and> is_digit (last body)
      \<and> list_all (\<lambda>c. is_digit c \<or> c = CHR ''_'') body \<and> \<not> contains ''__'' body)"

definition int_of_str :: "string \<Rightarrow> int option" where
  "int_of_str s =
     (let t = strip s;
          negative = prefix ''-'' t;
          body = (if prefix ''-'' t \<or> prefix ''+'' t then tl t else t)
      in if digit_group body
         then Some ((if negative then - 1 else 1) * int (nat_of_digits (filter is_digit body)))
         else None)"

text \<open>
  The body of \<^verbatim>\<open>_extract_transaction_data\<close> inside its \<^verbatim>\<open>try\<close>; \<open>now\<close> is the clock reading.
\<close>

definition extract_fields :: "pylib \<Rightarrow> string \<Rightarrow> element \<Rightarrow> exc + dict" where
  "extract_fields L now sms_element =
     (let sender = attr sms_element ''address'';
          timestamp = attr sms_element ''date'';
          body = attr sms_element ''body''
      in
      case (if timestamp \<noteq> [] then
              (case int_of_str timestamp of
                 None \<Rightarrow> Inl ValueError
               | Some ms \<Rightarrow> fromtimestamp L (of_int ms / 1000))
            else Inr now) of
        Inl e \<Rightarrow> Inl e
      | Inr transaction_date \<Rightarrow>
          Inr [(''raw_sender'', PStr sender),
               (''transaction_date'', PStr transaction_date),
               (''raw_body'', PStr body),
               (''parsed_at'', PStr now)])"

text \<open>
  \<^verbatim>\<open>_extract_transaction_data\<close>: \<^verbatim>\<open>except Exception\<close> logs the error and returns \<^verbatim>\<open>None\<close>.
  The result type keeps the exceptional outcome \<open>Inl\<close>, which the caller handles.
\<close>

definition extract_transaction_data :: "pylib \<Rightarrow> string \<Rightarrow> element \<Rightarrow> exc + dict option" where
  "extract_transaction_data L now sms_element =
     (case extract_fields L now sms_element of
        Inl e \<Rightarrow> Inr None
      | Inr transaction \<Rightarrow> Inr (Some transaction))"

text \<open>
  The dead-letter sink: one entry per call of \<^verbatim>\<open>_save_to_dead_letter\<close>, holding the failed
  element, the error and the time stamp.
\<close>

record dead_letter =
  failed_element :: element
  error :: exc
  timestamp :: string

definition save_to_dead_letter ::
  "string \<Rightarrow> element \<Rightarrow> exc \<Rightarrow> dead_letter list \<Rightarrow> dead_letter list" where
  "save_to_dead_letter now e error_msg sink =
     sink @ [\<lparr>failed_element = e, error = error_msg, timestamp = now\<rparr>]"

text \<open>
  The loop of \<^verbatim>\<open>parse_xml_file\<close> over the \<^verbatim>\<open><sms>\<close> elements, with the list of
  transactions and the dead-letter sink as its state.
\<close>

fun parse_elements ::
  "pylib \<Rightarrow> string \<Rightarrow> element list \<Rightarrow> dict list \<times> dead_letter list
    \<Rightarrow> dict list \<times> dead_letter list" where
  "parse_elements L now [] state = state"
| "parse_elements L now (sms_element # rest) (transactions, sink) =
     (case extract_transaction_data L now sms_element of
        Inl e \<Rightarrow> parse_elements L now rest (transactions, save_to_dead_letter now sms_element e sink)
      | Inr None \<Rightarrow> parse_elements L now rest (transactions, sink)
      | Inr (Some transaction) \<Rightarrow>
          if transaction \<noteq> []
          then parse_elements L now rest (transactions @ [transaction], sink)
          else parse_elements L now rest (transactions, sink))"

text \<open>
  \<^verbatim>\<open>parse_xml_file\<close>: \<open>source\<close> is what reading the file gave. An unreadable or missing
  file re-raises.
\<close>

definition parse_xml_file ::
  "pylib \<Rightarrow> string \<Rightarrow> exc + element list \<Rightarrow> dead_letter list
    \<Rightarrow> exc + dict list \<times> dead_letter list" where
  "parse_xml_file L now source sink =
     (case source of
        Inl e \<Rightarrow> Inl e
      | Inr sms_elements \<Rightarrow> Inr (parse_elements L now sms_elements ([], sink)))"

text \<open>
  \<^verbatim>\<open>parse_sms_transactions\<close>: \<^verbatim>\<open>validate_xml_structure\<close> answers \<^verbatim>\<open>False\<close> for an
  unreadable document and for one without \<^verbatim>\<open><sms>\<close> elements.
\<close>

definition validate_xml_structure :: "exc + element list \<Rightarrow> bool" where
  "validate_xml_structure source =
     (case source of Inl e \<Rightarrow> False | Inr sms_elements \<Rightarrow> sms_elements \<noteq> [])"

definition parse_sms_transactions ::
  "pylib \<Rightarrow> string \<Rightarrow> exc + element list \<Rightarrow> dead_letter list
    \<Rightarrow> exc + dict list \<times> dead_letter list" where
  "parse_sms_transactions L now source sink =
     (if \<not> validate_xml_structure source then Inl ValueError
      else parse_xml_file L now source sink)"

section \<open>Store (\<^verbatim>\<open>etl/load_db.py\<close>)\<close>

text \<open>
  The \<^verbatim>\<open>transactions\<close> table of \<^verbatim>\<open>DB_TABLES\<close>: for every column but \<^verbatim>\<open>id\<close> its name,
  whether it is \<^verbatim>\<open>NOT NULL\<close>, and its default.
\<close>

datatype dflt = NoDefault | Default pyval | CurrentTimestamp

definition TRANSACTIONS_COLUMNS :: "(string \<times> bool \<times> dflt) list" where
  "TRANSACTIONS_COLUMNS =
     [(''transaction_id'', True, NoDefault),
      (''amount'', True, NoDefault),
      (''currency'', False, Default (PStr ''UGX'')),
      (''transaction_date'', True, NoDefault),
      (''transaction_type'', True, NoDefault),
      (''category'', True, NoDefault),
      (''sender_phone'', False, NoDefault),
      (''receiver_phone'', False, NoDefault),
      (''sender_network'', False, NoDefault),
      (''receiver_network'', False, NoDefault),
      (''description'', False, NoDefault),
      (''balance_before'', False, NoDefault),
      (''balance_after'', False, NoDefault),
      (''fees'', False, Default (PInt 0)),
      (''status'', False, Default (PStr ''SUCCESS'')),
      (''created_at'', False, CurrentTimestamp),
      (''updated_at'', False, CurrentTimestamp)]"

text \<open>
  The database: the rows of the table in insertion order, each a dictionary from column
  name to value with \<^verbatim>\<open>NULL\<close> as \<open>PNone\<close>, and the counter of \<^verbatim>\<open>AUTOINCREMENT\<close>. A row
  stores the values as they were bound to the statement; the conversions that SQLite's
  column affinity applies to a value of another type than the column's are not modelled,
  so the model describes records whose values have the types of their columns.
\<close>

record database =
  rows :: "dict list"
  last_id :: int

text \<open>
  \<^verbatim>\<open>SELECT id FROM transactions WHERE transaction_id = ?\<close> followed by \<^verbatim>\<open>fetchone()\<close>:
  the \<^verbatim>\<open>id\<close> of the first matching row. No row equals \<^verbatim>\<open>NULL\<close>.
\<close>

definition select_id :: "database \<Rightarrow> pyval \<Rightarrow> pyval option" where
  "select_id db tid =
     (case filter (\<lambda>r. tid \<noteq> PNone \<and> map_of r ''transaction_id'' = Some tid) (rows db) of
        [] \<Rightarrow> None
      | r # _ \<Rightarrow> Some (dict_get r ''id'' PNone))"

text \<open>
  \<^verbatim>\<open>INSERT INTO transactions (columns) VALUES (?, ...)\<close> with the columns and values of
  \<open>data\<close>: a column that \<open>data\<close> lacks takes its default, or \<^verbatim>\<open>NULL\<close>. The statement
  fails on a \<^verbatim>\<open>NULL\<close> in a \<^verbatim>\<open>NOT NULL\<close> column and on a \<^verbatim>\<open>transaction_id\<close> that a row
  has already. \<open>db_now\<close> is the database's \<^verbatim>\<open>CURRENT_TIMESTAMP\<close>.
\<close>

definition new_row :: "string \<Rightarrow> int \<Rightarrow> dict \<Rightarrow> dict" where
  "new_row db_now rowid data =
     (''id'', PInt rowid) #
     map (\<lambda>(c, not_null, d).
            (c, case map_of data c of
                  Some v \<Rightarrow> v
                | None \<Rightarrow>
                    (case d of
                       NoDefault \<Rightarrow> PNone
                     | Default v \<Rightarrow> v
                     | CurrentTimestamp \<Rightarrow> PStr db_now)))
       TRANSACTIONS_COLUMNS"

definition sql_insert :: "string \<Rightarrow> database \<Rightarrow> dict \<Rightarrow> exc + database" where
  "sql_insert db_now db data =
     (let r = new_row db_now (last_id db + 1) data in
      if list_ex (\<lambda>(c, not_null, d). not_null \<and> dict_get r c PNone = PNone) TRANSACTIONS_COLUMNS
        then Inl IntegrityError
      else if list_ex (\<lambda>r'. map_of r' ''transaction_id'' = map_of r ''transaction_id'') (rows db)
        then Inl IntegrityError
      else Inr (db\<lparr>rows := rows db @ [r], last_id := last_id db + 1\<rparr>))"

text \<open>\<^verbatim>\<open>UPDATE transactions SET k = ?, ... WHERE id = ?\<close>\<close>

definition assign :: "dict \<Rightarrow> dict \<Rightarrow> dict" where
  "assign assignments r = fold (\<lambda>(k, v) r. AList.update k v r) assignments r"

definition sql_update :: "database \<Rightarrow> dict \<Rightarrow> pyval \<Rightarrow> database" where
  "sql_update db assignments rowid =
     db\<lparr>rows := map (\<lambda>r. if map_of r ''id'' = Some rowid then assign assignments r else r)
                    (rows db)\<rparr>"

text \<open>\<^verbatim>\<open>float(v)\<close>\<close>

definition py_float :: "pylib \<Rightarrow> pyval \<Rightarrow> exc + rat" where
  "py_float L v =
     (case v of
        PNone \<Rightarrow> Inl TypeError
      | PInt i \<Rightarrow> Inr (of_int i)
      | PFloat x \<Rightarrow> Inr x
      | PStr s \<Rightarrow> (case float_parse L s of None \<Rightarrow> Inl ValueError | Some x \<Rightarrow> Inr x))"

text \<open>
  \<^verbatim>\<open>float(transaction.get(key, 0)) if transaction.get(key) else otherwise\<close>, as
  \<^verbatim>\<open>_prepare_transaction_data\<close> has it for the balances and the fees.
\<close>

definition float_if_set :: "pylib \<Rightarrow> dict \<Rightarrow> string \<Rightarrow> pyval \<Rightarrow> exc + pyval" where
  "float_if_set L transaction key otherwise =
     (if truthy (dict_get transaction key PNone) then
        (case py_float L (dict_get transaction key (PInt 0)) of
           Inl e \<Rightarrow> Inl e
         | Inr x \<Rightarrow> Inr (PFloat x))
      else Inr otherwise)"

text \<open>
  The dictionary \<^verbatim>\<open>data\<close> that \<^verbatim>\<open>_prepare_transaction_data\<close> builds, given the four
  converted numbers.
\<close>

definition column_data :: "string \<Rightarrow> dict \<Rightarrow> rat \<Rightarrow> pyval \<Rightarrow> pyval \<Rightarrow> pyval \<Rightarrow> dict" where
  "column_data now transaction amount balance_before balance_after fees =
     [(''transaction_id'', dict_get transaction ''transaction_id'' (PStr [])),
      (''amount'', PFloat amount),
      (''currency'', dict_get transaction ''currency'' (PStr ''UGX'')),
      (''transaction_date'', dict_get transaction ''transaction_date'' (PStr now)),
      (''transaction_type'', dict_get transaction ''transaction_type'' (PStr ''UNKNOWN'')),
      (''category'', dict_get transaction ''category'' (PStr ''OTHER'')),
      (''sender_phone'', dict_get transaction ''sender_phone'' (PStr [])),
      (''receiver_phone'', dict_get transaction ''receiver_phone'' (PStr [])),
      (''sender_network'', dict_get transaction ''sender_network'' (PStr [])),
      (''receiver_network'', dict_get transaction ''receiver_network'' (PStr [])),
      (''description'', dict_get transaction ''description'' (PStr [])),
      (''balance_before'', balance_before),
      (''balance_after'', balance_after),
      (''fees'', fees),
      (''status'', dict_get transaction ''status'' (PStr ''SUCCESS'')),
      (''created_at'', dict_get transaction ''created_at'' (PStr now))]"

text \<open>
  \<^verbatim>\<open>_prepare_transaction_data\<close>: the conversions run in the order of the dictionary's
  entries, and the entries whose value is \<^verbatim>\<open>None\<close> are removed at the end.
\<close>

definition prepare_transaction_data :: "pylib \<Rightarrow> string \<Rightarrow> dict \<Rightarrow> exc + dict" where
  "prepare_transaction_data L now transaction =
     (case py_float L (dict_get transaction ''amount'' (PInt 0)) of
        Inl e \<Rightarrow> Inl e
      | Inr amount \<Rightarrow>
     (case float_if_set L transaction ''balance_before'' PNone of
        Inl e \<Rightarrow> Inl e
      | Inr balance_before \<Rightarrow>
     (case float_if_set L transaction ''balance_after'' PNone of
        Inl e \<Rightarrow> Inl e
      | Inr balance_after \<Rightarrow>
     (case float_if_set L transaction ''fees'' (PInt 0) of
        Inl e \<Rightarrow> Inl e
      | Inr fees \<Rightarrow>
          Inr (filter (\<lambda>(k, v). v \<noteq> PNone)
                 (column_data now transaction amount balance_before balance_after fees))))))"

text \<open>The body of \<^verbatim>\<open>_upsert_transaction\<close> inside its \<^verbatim>\<open>try\<close>.\<close>

definition upsert_statements ::
  "pylib \<Rightarrow> string \<Rightarrow> string \<Rightarrow> database \<Rightarrow> dict \<Rightarrow> exc + database" where
  "upsert_statements L now db_now db transaction =
     (case dict_item transaction ''transaction_id'' of
        Inl e \<Rightarrow> Inl e
      | Inr tid \<Rightarrow>
          (let existing = select_id db tid in
           case prepare_transaction_data L now transaction of
             Inl e \<Rightarrow> Inl e
           | Inr data \<Rightarrow>
               (case existing of
                  Some rowid \<Rightarrow>
                    (let data = AList.update ''updated_at'' (PStr now) data in
                     Inr (sql_update db (filter (\<lambda>(k, v). k \<noteq> ''id'') data) rowid))
                | None \<Rightarrow> sql_insert db_now db data)))"

text \<open>
  \<^verbatim>\<open>_upsert_transaction\<close>: an exception is logged and answered with \<^verbatim>\<open>False\<close>; the
  failed statement leaves the table as it was.
\<close>

definition upsert_transaction ::
  "pylib \<Rightarrow> string \<Rightarrow> string \<Rightarrow> database \<Rightarrow> dict \<Rightarrow> bool \<times> database" where
  "upsert_transaction L now db_now db transaction =
     (case upsert_statements L now db_now db transaction of
        Inl e \<Rightarrow> (False, db)
      | Inr db' \<Rightarrow> (True, db'))"



text \<open>
  What the schema keeps true of the table: \<^verbatim>\<open>id\<close> is a key, assigned from the counter, and
  \<^verbatim>\<open>transaction_id\<close> is \<^verbatim>\<open>UNIQUE\<close>.
\<close>

definition table_ok :: "database \<Rightarrow> bool" where
  "table_ok db \<longleftrightarrow>
     distinct (map (\<lambda>r. map_of r ''id'') (rows db))
     \<and> distinct (map (\<lambda>r. map_of r ''transaction_id'') (rows db))
     \<and> list_all (\<lambda>r. case map_of r ''id'' of Some (PInt i) \<Rightarrow> i \<le> last_id db | _ \<Rightarrow> False)
          (rows db)"

text \<open>The rows that hold a given \<^verbatim>\<open>transaction_id\<close>.\<close>

definition rows_with :: "database \<Rightarrow> string \<Rightarrow> dict list" where
  "rows_with db tid = filter (\<lambda>r. map_of r ''transaction_id'' = Some (PStr tid)) (rows db)"

section \<open>Pipeline (\<^verbatim>\<open>etl/run.py\<close>)\<close>


section \<open>A library instance for running the model\<close>

text \<open>
  The theorems below hold for every behaviour of the library functions. To run the model
  on a concrete input, the library has to be some fixed value; this one reads and prints
  whole numbers, takes a date string as parsed already, and stands for no particular
  Python installation.
\<close>

definition test_lib :: pylib where
  "test_lib =
     \<lparr>md5_hexdigest = (\<lambda>s. s),
      float_str = (\<lambda>x. str_of_int \<lfloor>x\<rfloor> @ ''.0''),
      float_parse = (\<lambda>s. map_option of_int (int_of_str s)),
      dateutil_parse = (\<lambda>s. Inr s),
      fromisoformat_hour = (\<lambda>s. None),
      fromtimestamp = (\<lambda>x. Inr ''2021-10-18T14:38:10'')\<rparr>"



definition sample_second :: dict where
  "sample_second =
     [(''transaction_id'', PStr ''tx001''), (''amount'', PFloat 30000),
      (''transaction_date'', PStr ''2023-10-15T14:30:00''),
      (''balance_before'', PFloat 0)]"

definition sample_db_first :: database where
  "sample_db_first =
     \<lparr>rows =
        [[(''id'', PInt 1), (''transaction_id'', PStr ''tx001''),
         (''amount'', PFloat 25000), (''currency'', PStr ''UGX''),
         (''transaction_date'', PStr ''2023-10-15T14:30:00''),
         (''transaction_type'', PStr ''UNKNOWN''),
         (''category'', PStr ''OTHER''), (''sender_phone'', PStr []),
         (''receiver_phone'', PStr []), (''sender_network'', PStr []),
         (''receiver_network'', PStr []), (''description'', PStr []),
         (''balance_before'', PFloat 100000), (''balance_after'', PNone),
         (''fees'', PInt 0), (''status'', PStr ''SUCCESS''),
         (''created_at'', PStr ''2023-10-16T08:00:00''),
         (''updated_at'', PStr ''2023-10-16 05:00:00'')]],
      last_id = 1\<rparr>"

definition sample_db_second :: database where
  "sample_db_second =
     \<lparr>rows =
        [[(''id'', PInt 1), (''transaction_id'', PStr ''tx001''),
         (''amount'', PFloat 30000), (''currency'', PStr ''UGX''),
         (''transaction_date'', PStr ''2023-10-15T14:30:00''),
         (''transaction_type'', PStr ''UNKNOWN''),
         (''category'', PStr ''OTHER''), (''sender_phone'', PStr []),
         (''receiver_phone'', PStr []), (''sender_network'', PStr []),
         (''receiver_network'', PStr []), (''description'', PStr []),
         (''balance_before'', PFloat 100000), (''balance_after'', PNone),
         (''fees'', PInt 0), (''status'', PStr ''SUCCESS''),
         (''created_at'', PStr ''2023-10-17T09:00:00''),
         (''updated_at'', PStr ''2023-10-17T09:00:00'')]],
      last_id = 1\<rparr>"

section \<open>Properties of the categorizer\<close>

text \<open>
  Claim C8. \<^verbatim>\<open>_categorize_by_amount\<close> assigns the buckets by the ascending thresholds of
  \<^verbatim>\<open>AMOUNT_THRESHOLDS\<close>, a boundary belonging to the lower bucket: an amount equal to the
  \<^verbatim>\<open>SMALL\<close> threshold is \<^verbatim>\<open>SMALL\<close> and the threshold plus one is \<^verbatim>\<open>MEDIUM\<close>, likewise at the
  \<^verbatim>\<open>MEDIUM\<close> and \<^verbatim>\<open>LARGE\<close> thresholds, and every amount above the \<^verbatim>\<open>LARGE\<close> threshold is
  \<^verbatim>\<open>VERY_LARGE\<close>. The last conjunct gives the bucket of every numeric amount.
\<close>

theorem categorize_by_amount_boundaries:
  assumes "map_of AMOUNT_THRESHOLDS ''SMALL'' = Some t1"
    and "map_of AMOUNT_THRESHOLDS ''MEDIUM'' = Some t2"
    and "map_of AMOUNT_THRESHOLDS ''LARGE'' = Some t3"
  shows "categorize_by_amount (PInt t1) = Inr ''SMALL''
       \<and> categorize_by_amount (PInt (t1 + 1)) = Inr ''MEDIUM''
       \<and> categorize_by_amount (PInt t2) = Inr ''MEDIUM''
       \<and> categorize_by_amount (PInt (t2 + 1)) = Inr ''LARGE''
       \<and> categorize_by_amount (PInt t3) = Inr ''LARGE''
       \<and> categorize_by_amount (PInt (t3 + 1)) = Inr ''VERY_LARGE''
       \<and> (num_of amount = Some a \<longrightarrow>
            categorize_by_amount amount =
              Inr (if a \<le> of_int t1 then ''SMALL''
                   else if a \<le> of_int t2 then ''MEDIUM''
                   else if a \<le> of_int t3 then ''LARGE''
                   else ''VERY_LARGE''))"
proof -
  have t: "t1 = 1000" "t2 = 50000" "t3 = 500000"
    using assms by (simp_all add: AMOUNT_THRESHOLDS_def)
  have general: "categorize_by_amount v =
      Inr (if x \<le> 1000 then ''SMALL'' else if x \<le> 50000 then ''MEDIUM''
           else if x \<le> 500000 then ''LARGE'' else ''VERY_LARGE'')"
    if "num_of v = Some x" for v x
    using that
    by (simp add: categorize_by_amount_def at_most_def threshold_def AMOUNT_THRESHOLDS_def
        py_le_def)
  show ?thesis
    unfolding t by (simp add: general)
qed

theorem categorize_by_amount_boundaries_witness:
  "categorize_by_amount (PInt 1000) = Inr ''SMALL''
   \<and> categorize_by_amount (PInt 1001) = Inr ''MEDIUM''
   \<and> categorize_by_amount (PInt 50000) = Inr ''MEDIUM''
   \<and> categorize_by_amount (PInt 50001) = Inr ''LARGE''
   \<and> categorize_by_amount (PInt 500000) = Inr ''LARGE''
   \<and> categorize_by_amount (PInt 500001) = Inr ''VERY_LARGE''
   \<and> categorize_by_amount (PFloat (2001 / 2)) = Inr ''MEDIUM''"
proof -
  have h: "map_of AMOUNT_THRESHOLDS ''SMALL'' = Some 1000"
    "map_of AMOUNT_THRESHOLDS ''MEDIUM'' = Some 50000"
    "map_of AMOUNT_THRESHOLDS ''LARGE'' = Some 500000"
    by (simp_all add: AMOUNT_THRESHOLDS_def)
  show ?thesis
    using categorize_by_amount_boundaries [OF h, of "PFloat (2001 / 2)" "2001 / 2"]
    by simp
qed

text \<open>
  Claim C10. In \<^verbatim>\<open>_infer_transaction_type\<close> the balance rule runs only when both balances
  are truthy. For a category that decides no type by itself and a record that carries both
  balances, one of them equal to zero, the comparison is skipped: the answer is the one
  of the body phrases, \<^verbatim>\<open>DEBIT\<close>, \<^verbatim>\<open>CREDIT\<close> or \<^verbatim>\<open>UNKNOWN\<close>, whatever the other balance is.
\<close>

theorem infer_transaction_type_zero_balance:
  assumes "category \<notin> set [''TRANSFER'', ''WITHDRAWAL'', ''PAYMENT'', ''AIRTIME'', ''BILL'']"
    and "category \<noteq> ''DEPOSIT''"
    and "map_of transaction ''balance_before'' = Some balance_before"
    and "map_of transaction ''balance_after'' = Some balance_after"
    and "num_of balance_before = Some 0 \<or> num_of balance_after = Some 0"
  shows "infer_transaction_type transaction category = infer_from_body transaction"
proof -
  have "\<not> (truthy balance_before \<and> truthy balance_after)"
    using assms(5) by (cases balance_before; cases balance_after) auto
  then show ?thesis
    using assms(1-4)
    by (auto simp add: infer_transaction_type_def infer_from_balance_def dict_get_def)
qed

theorem infer_transaction_type_zero_balance_witness:
  "infer_transaction_type
     [(''balance_before'', PInt 0), (''balance_after'', PFloat 5000),
      (''raw_body'', PStr ''Your balance is UGX 5,000'')] ''OTHER''
   = Inr ''UNKNOWN''"
proof -
  let ?t = "[(''balance_before'', PInt 0), (''balance_after'', PFloat 5000),
             (''raw_body'', PStr ''Your balance is UGX 5,000'')]"
  have "infer_transaction_type ?t ''OTHER'' = infer_from_body ?t"
    by (rule infer_transaction_type_zero_balance [where balance_before = "PInt 0"
          and balance_after = "PFloat 5000"]) simp_all
  also have "\<dots> = Inr ''UNKNOWN''"
    by (simp add: infer_from_body_def dict_get_def lower_def lower_char_def)
  finally show ?thesis .
qed

text \<open>
  Claim C4. \<^verbatim>\<open>categorize_transaction\<close> is claimed never to raise, also for a record whose
  \<^verbatim>\<open>raw_body\<close> is \<^verbatim>\<open>None\<close>. On the record \<^verbatim>\<open>{'raw_body': None}\<close> no category matches, the
  balance rule does not apply, and \<^verbatim>\<open>_infer_transaction_type\<close> calls \<^verbatim>\<open>.lower()\<close> on
  \<^verbatim>\<open>None\<close>: the call leaves with \<^verbatim>\<open>AttributeError\<close>.
\<close>

theorem categorize_transaction_none_body_raises:
  "categorize_transaction L [(''raw_body'', PNone)] = Inl AttributeError"
  by (simp add: categorize_transaction_def categorize_by_description_def
      categorize_by_body_def dict_get_def infer_transaction_type_def infer_from_balance_def
      infer_from_body_def)

text \<open>
  What does hold of \<^verbatim>\<open>categorize_transaction\<close>: whenever it returns, the category and the
  type are filled in, the category with a non-empty name and the type with \<^verbatim>\<open>DEBIT\<close>,
  \<^verbatim>\<open>CREDIT\<close> or \<^verbatim>\<open>UNKNOWN\<close>; and it does return on every record whose description and body
  are strings (or absent) and whose amount and balances are numbers (or absent).
\<close>

lemma infer_transaction_type_values:
  assumes "infer_transaction_type t category = Inr ty"
  shows "ty \<in> set [''DEBIT'', ''CREDIT'', ''UNKNOWN'']"
proof (cases "category \<in> set [''TRANSFER'', ''WITHDRAWAL'', ''PAYMENT'', ''AIRTIME'', ''BILL'']
    \<or> category = ''DEPOSIT''")
  case True
  with assms show ?thesis
    by (auto simp add: infer_transaction_type_def split: if_splits)
next
  case False
  let ?b = "infer_from_balance (dict_get t ''balance_before'' (PInt 0))
              (dict_get t ''balance_after'' (PInt 0))"
  from False assms have cases: "?b = Inr (Some ty) \<or> (?b = Inr None \<and> infer_from_body t = Inr ty)"
    by (auto simp add: infer_transaction_type_def Let_def split: sum.splits option.splits)
  then show ?thesis
  proof
    assume "?b = Inr (Some ty)"
    then show ?thesis
      by (auto simp add: infer_from_balance_def split: if_splits sum.splits bool.splits)
  next
    assume "?b = Inr None \<and> infer_from_body t = Inr ty"
    then have "infer_from_body t = Inr ty" ..
    then show ?thesis
      by (auto simp add: infer_from_body_def Let_def split: pyval.splits if_splits)
  qed
qed

lemma categorize_transaction_populated:
  assumes "categorize_transaction L t = Inr c"
  shows "\<exists>category ty. map_of c ''category'' = Some (PStr category) \<and> category \<noteq> []
      \<and> map_of c ''transaction_type'' = Some (PStr ty)
      \<and> ty \<in> set [''DEBIT'', ''CREDIT'', ''UNKNOWN'']"
proof -
  from assms obtain c2 ty amount_category where
    ty: "infer_transaction_type t (if c2 = [] then ''OTHER'' else c2) = Inr ty"
    and c: "c = AList.update ''time_category''
              (PStr (categorize_by_time L (dict_get t ''transaction_date'' (PStr []))))
              (AList.update ''amount_category'' (PStr amount_category)
                (AList.update ''transaction_type'' (PStr ty)
                  (AList.update ''category'' (PStr (if c2 = [] then ''OTHER'' else c2)) t)))"
    by (auto simp add: categorize_transaction_def Let_def split: sum.splits)
  have "map_of c ''category'' = Some (PStr (if c2 = [] then ''OTHER'' else c2))"
    and "map_of c ''transaction_type'' = Some (PStr ty)"
    by (simp_all add: c update_conv')
  moreover have "(if c2 = [] then ''OTHER'' else c2) \<noteq> []"
    by simp
  ultimately show ?thesis
    using infer_transaction_type_values [OF ty] by blast
qed

lemma categorize_by_amount_numeric:
  assumes "num_of amount = Some a"
  shows "\<exists>bucket. categorize_by_amount amount = Inr bucket"
  using assms
  by (simp add: categorize_by_amount_def at_most_def threshold_def AMOUNT_THRESHOLDS_def
      py_le_def split: bool.splits)

lemma infer_from_balance_numeric:
  assumes "num_of balance_before = Some x" and "num_of balance_after = Some y"
  shows "\<exists>r. infer_from_balance balance_before balance_after = Inr r"
  using assms
  by (simp add: infer_from_balance_def py_gt_def py_lt_def split: bool.splits)

lemma categorize_transaction_returns:
  assumes "dict_get t ''description'' (PStr []) = PStr description"
    and "dict_get t ''raw_body'' (PStr []) = PStr body"
    and "num_of (dict_get t ''amount'' (PInt 0)) = Some a"
    and "num_of (dict_get t ''balance_before'' (PInt 0)) = Some x"
    and "num_of (dict_get t ''balance_after'' (PInt 0)) = Some y"
  shows "\<exists>c. categorize_transaction L t = Inr c"
proof -
  obtain c1 where c1: "categorize_by_description (PStr description) = Inr c1"
    by (cases "description = []") (simp_all add: categorize_by_description_def)
  obtain cb where cb: "categorize_by_body (PStr body) = Inr cb"
    by (cases "body = []") (simp_all add: categorize_by_body_def Let_def)
  have body: "\<exists>ty. infer_from_body t = Inr ty"
    by (simp add: infer_from_body_def assms(2) Let_def)
  from infer_from_balance_numeric [OF assms(4,5)] body
  have ty: "\<exists>ty. infer_transaction_type t category = Inr ty" for category
    by (auto simp add: infer_transaction_type_def Let_def split: option.splits)
  from categorize_by_amount_numeric [OF assms(3)] obtain bucket where
    bucket: "categorize_by_amount (dict_get t ''amount'' (PInt 0)) = Inr bucket"
    by blast
  define c2 where "c2 = (if c1 = [] then cb else c1)"
  define category where "category = (if c2 = [] then ''OTHER'' else c2)"
  obtain ty where ty': "infer_transaction_type t category = Inr ty"
    using ty by blast
  have second: "(if c1 = [] then categorize_by_body (dict_get t ''raw_body'' (PStr []))
      else Inr c1) = Inr c2"
    by (simp add: c2_def assms(2) cb)
  show ?thesis
    unfolding categorize_transaction_def assms(1) c1 sum.case second Let_def
      category_def [symmetric] ty' bucket
    by simp
qed

section \<open>Properties of the field normalizer\<close>

subsection \<open>Phone numbers\<close>

text \<open>
  Claim C5, as amended. \<^verbatim>\<open>normalize_phone_number\<close> maps \<^verbatim>\<open>"0772123456"\<close>,
  \<^verbatim>\<open>"772123456"\<close> and \<^verbatim>\<open>"256772123456"\<close> to \<^verbatim>\<open>"+256772123456"\<close>. The empty string and
  every input that is not a string go to the empty string, and a string goes to the empty
  string exactly when it holds no digit. Every other input of unclear format (its digits do
  not start with 256, are not ten digits starting with 0, and are not nine digits) is
  passed through as its digits.
\<close>

theorem normalize_phone_number_cases:
  "normalize_phone_number (PStr ''0772123456'') = ''+256772123456''
   \<and> normalize_phone_number (PStr ''772123456'') = ''+256772123456''
   \<and> normalize_phone_number (PStr ''256772123456'') = ''+256772123456''
   \<and> normalize_phone_number (PStr []) = []
   \<and> normalize_phone_number PNone = []
   \<and> normalize_phone_number (PInt i) = []
   \<and> normalize_phone_number (PFloat x) = []
   \<and> (normalize_phone_number (PStr raw) = [] \<longleftrightarrow> filter is_digit raw = [])
   \<and> (\<not> prefix ''256'' (filter is_digit raw)
        \<and> \<not> (prefix ''0'' (filter is_digit raw) \<and> length (filter is_digit raw) = 10)
        \<and> length (filter is_digit raw) \<noteq> 9
      \<longrightarrow> normalize_phone_number (PStr raw) = filter is_digit raw)"
proof -
  have examples:
    "normalize_phone_number (PStr ''0772123456'') = ''+256772123456''"
    "normalize_phone_number (PStr ''772123456'') = ''+256772123456''"
    "normalize_phone_number (PStr ''256772123456'') = ''+256772123456''"
    by (simp_all add: normalize_phone_number_def is_digit_def)
  have not_text:
    "normalize_phone_number (PStr []) = []" "normalize_phone_number PNone = []"
    "normalize_phone_number (PInt i) = []" "normalize_phone_number (PFloat x) = []"
    by (simp_all add: normalize_phone_number_def)
  have empty_iff: "normalize_phone_number (PStr raw) = [] \<longleftrightarrow> filter is_digit raw = []"
    by (auto simp add: normalize_phone_number_def Let_def)
  have pass_through:
    "\<not> prefix ''256'' (filter is_digit raw)
        \<and> \<not> (prefix ''0'' (filter is_digit raw) \<and> length (filter is_digit raw) = 10)
        \<and> length (filter is_digit raw) \<noteq> 9
      \<longrightarrow> normalize_phone_number (PStr raw) = filter is_digit raw"
    by (auto simp add: normalize_phone_number_def Let_def)
  show ?thesis
    using examples not_text empty_iff pass_through by blast
qed

theorem normalize_phone_number_cases_witness:
  "normalize_phone_number (PStr ''tel: 12-345'') = ''12345''
   \<and> normalize_phone_number (PStr ''n/a'') = []"
  using normalize_phone_number_cases [of 0 0 "''tel: 12-345''"]
    normalize_phone_number_cases [of 0 0 "''n/a''"]
  by (simp add: is_digit_def)

text \<open>
  Claim C5 as stated sends every malformed input to the empty string. The five digits
  \<^verbatim>\<open>"12345"\<close> are no phone number of any accepted format, and they come back unchanged.
\<close>

theorem normalize_phone_number_malformed_counterexample:
  "normalize_phone_number (PStr ''12345'') = ''12345''"
  by (simp add: normalize_phone_number_def is_digit_def)

subsection \<open>Derived identifiers\<close>

text \<open>The five fields that \<^verbatim>\<open>generate_transaction_id\<close> reads are all that it depends on.\<close>

lemma data_string_cong:
  assumes "\<forall>k \<in> set [''transaction_date'', ''amount'', ''sender_phone'', ''receiver_phone'',
              ''description'']. map_of t1 k = map_of t2 k"
  shows "data_string L t1 = data_string L t2"
  using assms by (simp add: data_string_def dict_get_def)

text \<open>
  With four fields equal, the hashed string is different as soon as the fifth prints
  differently.
\<close>

lemma data_string_differs:
  assumes "k \<in> set [''transaction_date'', ''amount'', ''sender_phone'', ''receiver_phone'',
              ''description'']"
    and "\<forall>k' \<in> set [''transaction_date'', ''amount'', ''sender_phone'', ''receiver_phone'',
              ''description'']. k' \<noteq> k \<longrightarrow> map_of t1 k' = map_of t2 k'"
    and "py_str L (dict_get t1 k (PStr [])) \<noteq> py_str L (dict_get t2 k (PStr []))"
  shows "data_string L t1 \<noteq> data_string L t2"
  using assms by (auto simp add: data_string_def dict_get_def)

text \<open>
  The integer 50000 and the string \<^verbatim>\<open>'50000'\<close> print alike, so two records that differ
  in the amount only, one holding the integer and the other the string, get the same
  identifier, whatever the hash function is.
\<close>

lemma generate_transaction_id_int_str:
  "generate_transaction_id L
     [(''transaction_date'', PStr ''2023-10-15T14:30:00''), (''amount'', PInt 50000),
      (''sender_phone'', PStr ''+256772123456''), (''receiver_phone'', PStr ''+256701987654''),
      (''description'', PStr ''Test transaction'')]
   = generate_transaction_id L
     [(''transaction_date'', PStr ''2023-10-15T14:30:00''), (''amount'', PStr ''50000''),
      (''sender_phone'', PStr ''+256772123456''), (''receiver_phone'', PStr ''+256701987654''),
      (''description'', PStr ''Test transaction'')]"
  by (simp add: generate_transaction_id_def data_string_def dict_get_def py_str_def
      str_of_int_def)

text \<open>
  An identifier has at most twelve characters, and there are infinitely many descriptions:
  whatever the hash function is, two records that differ in the description only, by two
  different strings, share an identifier.
\<close>

lemma generate_transaction_id_collides:
  "\<exists>d1 d2. d1 \<noteq> d2 \<and>
     generate_transaction_id L (AList.update ''description'' (PStr d1) t)
       = generate_transaction_id L (AList.update ''description'' (PStr d2) t)"
proof -
  let ?f = "\<lambda>d. generate_transaction_id L (AList.update ''description'' (PStr d) t)"
  have "range ?f \<subseteq> {xs. set xs \<subseteq> UNIV \<and> length xs \<le> 12}"
    by (auto simp: generate_transaction_id_def)
  moreover have "finite {xs :: string. set xs \<subseteq> UNIV \<and> length xs \<le> 12}"
    by (rule finite_lists_length_le) simp
  ultimately have "finite (range ?f)"
    by (rule finite_subset)
  moreover have "infinite (UNIV :: string set)"
    by (rule infinite_UNIV_listI)
  ultimately have "\<not> inj ?f"
    using finite_imageD by blast
  then show ?thesis
    unfolding inj_def by blast
qed

text \<open>
  Claim C6, as amended. Two records without a supplied identifier that agree on
  \<^verbatim>\<open>transaction_date\<close>, \<^verbatim>\<open>amount\<close>, \<^verbatim>\<open>sender_phone\<close>, \<^verbatim>\<open>receiver_phone\<close> and \<^verbatim>\<open>description\<close>
  get the same derived identifier. When they differ in exactly one of these fields and the
  two values of that field print differently under \<^verbatim>\<open>str\<close>, the strings that are hashed
  differ; the identifiers are the first twelve characters of the digests of these two
  strings.
\<close>

theorem generate_transaction_id_deterministic:
  "((\<forall>k \<in> set [''transaction_date'', ''amount'', ''sender_phone'', ''receiver_phone'',
         ''description'']. map_of t1 k = map_of t2 k)
     \<longrightarrow> generate_transaction_id L t1 = generate_transaction_id L t2)
   \<and> (k \<in> set [''transaction_date'', ''amount'', ''sender_phone'', ''receiver_phone'',
         ''description'']
       \<and> (\<forall>k' \<in> set [''transaction_date'', ''amount'', ''sender_phone'', ''receiver_phone'',
         ''description'']. k' \<noteq> k \<longrightarrow> map_of t1 k' = map_of t2 k')
       \<and> py_str L (dict_get t1 k (PStr [])) \<noteq> py_str L (dict_get t2 k (PStr []))
     \<longrightarrow> data_string L t1 \<noteq> data_string L t2
         \<and> generate_transaction_id L t1 = take 12 (md5_hexdigest L (data_string L t1))
         \<and> generate_transaction_id L t2 = take 12 (md5_hexdigest L (data_string L t2)))"
proof (intro conjI impI)
  assume "\<forall>k \<in> set [''transaction_date'', ''amount'', ''sender_phone'', ''receiver_phone'',
         ''description'']. map_of t1 k = map_of t2 k"
  then have "data_string L t1 = data_string L t2"
    by (rule data_string_cong)
  then show "generate_transaction_id L t1 = generate_transaction_id L t2"
    by (simp add: generate_transaction_id_def)
next
  assume "k \<in> set [''transaction_date'', ''amount'', ''sender_phone'', ''receiver_phone'',
         ''description'']
       \<and> (\<forall>k' \<in> set [''transaction_date'', ''amount'', ''sender_phone'', ''receiver_phone'',
         ''description'']. k' \<noteq> k \<longrightarrow> map_of t1 k' = map_of t2 k')
       \<and> py_str L (dict_get t1 k (PStr [])) \<noteq> py_str L (dict_get t2 k (PStr []))"
  then show "data_string L t1 \<noteq> data_string L t2"
    using data_string_differs [of k t1 t2 L] by blast
next
  show "generate_transaction_id L t1 = take 12 (md5_hexdigest L (data_string L t1))"
    by (simp add: generate_transaction_id_def)
next
  show "generate_transaction_id L t2 = take 12 (md5_hexdigest L (data_string L t2))"
    by (simp add: generate_transaction_id_def)
qed

theorem generate_transaction_id_deterministic_witness:
  "generate_transaction_id test_lib
     [(''amount'', PInt 50000), (''description'', PStr ''Test transaction''),
      (''raw_body'', PStr ''first'')]
   = generate_transaction_id test_lib
     [(''description'', PStr ''Test transaction''), (''amount'', PInt 50000),
      (''raw_body'', PStr ''second'')]
   \<and> data_string test_lib [(''amount'', PInt 50000)]
     \<noteq> data_string test_lib [(''amount'', PInt 60000)]"
  using generate_transaction_id_deterministic
    [of "[(''amount'', PInt 50000), (''description'', PStr ''Test transaction''),
          (''raw_body'', PStr ''first'')]"
        "[(''description'', PStr ''Test transaction''), (''amount'', PInt 50000),
          (''raw_body'', PStr ''second'')]"
        test_lib "''amount''"]
    generate_transaction_id_deterministic
    [of "[(''amount'', PInt 50000)]" "[(''amount'', PInt 60000)]" test_lib "''amount''"]
  by (simp add: dict_get_def py_str_def str_of_int_def)

text \<open>
  Claim C6 as stated has the identifiers differ whenever exactly one field differs. That
  fails for every hash function: the two records of \<open>generate_transaction_id_int_str\<close>
  differ in the amount only and share their identifier.
\<close>

theorem generate_transaction_id_single_field_counterexample:
  "\<not> (\<forall>L t1 t2 k.
        k \<in> set [''transaction_date'', ''amount'', ''sender_phone'', ''receiver_phone'',
              ''description'']
        \<and> map_of t1 k \<noteq> map_of t2 k
        \<and> (\<forall>k' \<in> set [''transaction_date'', ''amount'', ''sender_phone'', ''receiver_phone'',
              ''description'']. k' \<noteq> k \<longrightarrow> map_of t1 k' = map_of t2 k')
        \<longrightarrow> generate_transaction_id L t1 \<noteq> generate_transaction_id L t2)"
proof
  let ?t1 = "[(''transaction_date'', PStr ''2023-10-15T14:30:00''), (''amount'', PInt 50000),
      (''sender_phone'', PStr ''+256772123456''), (''receiver_phone'', PStr ''+256701987654''),
      (''description'', PStr ''Test transaction'')]"
  let ?t2 = "[(''transaction_date'', PStr ''2023-10-15T14:30:00''), (''amount'', PStr ''50000''),
      (''sender_phone'', PStr ''+256772123456''), (''receiver_phone'', PStr ''+256701987654''),
      (''description'', PStr ''Test transaction'')]"
  assume "\<forall>L t1 t2 k.
        k \<in> set [''transaction_date'', ''amount'', ''sender_phone'', ''receiver_phone'',
              ''description'']
        \<and> map_of t1 k \<noteq> map_of t2 k
        \<and> (\<forall>k' \<in> set [''transaction_date'', ''amount'', ''sender_phone'', ''receiver_phone'',
              ''description'']. k' \<noteq> k \<longrightarrow> map_of t1 k' = map_of t2 k')
        \<longrightarrow> generate_transaction_id L t1 \<noteq> generate_transaction_id L t2"
  then have "''amount'' \<in> set [''transaction_date'', ''amount'', ''sender_phone'',
              ''receiver_phone'', ''description'']
        \<and> map_of ?t1 ''amount'' \<noteq> map_of ?t2 ''amount''
        \<and> (\<forall>k' \<in> set [''transaction_date'', ''amount'', ''sender_phone'', ''receiver_phone'',
              ''description'']. k' \<noteq> ''amount'' \<longrightarrow> map_of ?t1 k' = map_of ?t2 k')
        \<longrightarrow> generate_transaction_id test_lib ?t1 \<noteq> generate_transaction_id test_lib ?t2"
    by blast
  then have "generate_transaction_id test_lib ?t1 \<noteq> generate_transaction_id test_lib ?t2"
    by simp
  then show False
    using generate_transaction_id_int_str [of test_lib] by simp
qed

subsection \<open>Validation\<close>























section \<open>Properties of the record extractor\<close>

lemma int_of_str_invalid_date: "int_of_str ''invalid_date'' = None"
  by (simp add: int_of_str_def strip_def is_space_def digit_group_def is_digit_def)

text \<open>An entry without a time stamp is emitted, dated with the current time.\<close>

lemma extract_absent_timestamp:
  assumes "attr sms_element ''date'' = []"
  shows "extract_transaction_data L now sms_element =
     Inr (Some [(''raw_sender'', PStr (attr sms_element ''address'')),
                (''transaction_date'', PStr now),
                (''raw_body'', PStr (attr sms_element ''body'')),
                (''parsed_at'', PStr now)])"
  using assms by (simp add: extract_transaction_data_def extract_fields_def)

text \<open>An entry whose time stamp is no integer is answered with \<^verbatim>\<open>None\<close>.\<close>

lemma extract_unparsable_timestamp:
  assumes "attr sms_element ''date'' \<noteq> []" and "int_of_str (attr sms_element ''date'') = None"
  shows "extract_transaction_data L now sms_element = Inr None"
  using assms by (simp add: extract_transaction_data_def extract_fields_def)

text \<open>\<^verbatim>\<open>_extract_transaction_data\<close> catches every exception itself.\<close>

lemma extract_never_raises: "\<exists>r. extract_transaction_data L now sms_element = Inr r"
  by (simp add: extract_transaction_data_def split: sum.splits)

text \<open>
  Claim C2. An entry with an absent or unparsable time stamp is claimed to be emitted with
  the current time. That holds for an absent time stamp (\<open>extract_absent_timestamp\<close>). For
  the element of the repository's test \<^verbatim>\<open>test_extract_transaction_data_invalid_date\<close>, whose
  \<^verbatim>\<open>date\<close> is \<^verbatim>\<open>"invalid_date"\<close>, \<^verbatim>\<open>int(timestamp)\<close> raises inside the \<^verbatim>\<open>try\<close>, the
  function returns \<^verbatim>\<open>None\<close>, and \<^verbatim>\<open>parse_xml_file\<close> emits nothing for the entry.
\<close>

theorem extract_unparsable_timestamp_not_emitted:
  "extract_transaction_data L now
     [(''address'', ''+256772123456''), (''date'', ''invalid_date''),
      (''body'', ''Test SMS message'')] = Inr None
   \<and> parse_xml_file L now
       (Inr [[(''address'', ''+256772123456''), (''date'', ''invalid_date''),
              (''body'', ''Test SMS message'')]]) sink
     = Inr ([], sink)"
  by (simp add: parse_xml_file_def extract_transaction_data_def extract_fields_def attr_def
      int_of_str_invalid_date)

text \<open>
  Claim C3. A malformed entry is claimed to reach the dead-letter sink. The only call of
  \<^verbatim>\<open>_save_to_dead_letter\<close> is in the \<^verbatim>\<open>except\<close> clause of \<^verbatim>\<open>parse_xml_file\<close> around
  \<^verbatim>\<open>_extract_transaction_data\<close>, which never raises: no run writes to the sink. On the
  document of the test suite's \<^verbatim>\<open>invalid_xml\<close> the first entry (time stamp
  \<^verbatim>\<open>"invalid_date"\<close>) is neither emitted nor dead-lettered, and the run continues with
  the second entry.
\<close>

theorem parse_xml_file_writes_no_dead_letter:
  "snd (parse_elements L now sms_elements (transactions, sink)) = sink
   \<and> parse_xml_file L now
       (Inr [[(''address'', ''+256772123456''), (''date'', ''invalid_date''),
              (''body'', ''Test message'')],
             [(''address'', []), (''date'', []), (''body'', [])]]) []
     = Inr ([[(''raw_sender'', PStr []), (''transaction_date'', PStr now),
              (''raw_body'', PStr []), (''parsed_at'', PStr now)]], [])"
proof
  show "snd (parse_elements L now sms_elements (transactions, sink)) = sink"
    by (induction sms_elements arbitrary: transactions)
      (auto simp add: extract_transaction_data_def split: sum.splits)
next
  show "parse_xml_file L now
       (Inr [[(''address'', ''+256772123456''), (''date'', ''invalid_date''),
              (''body'', ''Test message'')],
             [(''address'', []), (''date'', []), (''body'', [])]]) []
     = Inr ([[(''raw_sender'', PStr []), (''transaction_date'', PStr now),
              (''raw_body'', PStr []), (''parsed_at'', PStr now)]], [])"
    by (simp add: parse_xml_file_def extract_transaction_data_def extract_fields_def attr_def
        int_of_str_invalid_date)
qed

section \<open>Properties of the store\<close>

subsection \<open>Rows, columns and prepared data\<close>

lemma assign_lookup:
  "distinct (map fst as) \<Longrightarrow>
     map_of (assign as r) k = (case map_of as k of Some v \<Rightarrow> Some v | None \<Rightarrow> map_of r k)"
proof (induction as arbitrary: r)
  case Nil
  then show ?case by (simp add: assign_def)
next
  case (Cons a as)
  obtain k' v' where a: "a = (k', v')" by (cases a)
  have step: "assign ((k', v') # as) r = assign as (AList.update k' v' r)"
    by (simp add: assign_def)
  from Cons.prems have d: "distinct (map fst as)" and notin: "k' \<notin> fst ` set as"
    by (auto simp: a)
  from notin have none: "map_of as k' = None"
    by (simp add: map_of_eq_None_iff)
  have "map_of (assign as (AList.update k' v' r)) k =
      (case map_of as k of Some v \<Rightarrow> Some v | None \<Rightarrow> map_of (AList.update k' v' r) k)"
    by (rule Cons.IH [OF d])
  then show ?case
    using none by (simp add: step a update_conv' split: option.splits)
qed

lemma filter_distinct_single:
  "distinct (map f xs) \<Longrightarrow> x \<in> set xs \<Longrightarrow> filter (\<lambda>y. f y = f x) xs = [x]"
proof (induction xs)
  case Nil
  then show ?case by simp
next
  case (Cons y ys)
  show ?case
  proof (cases "x = y")
    case True
    have "filter (\<lambda>z. f z = f y) ys = []"
      using Cons.prems(1) by (force simp add: filter_empty_conv image_iff)
    with True show ?thesis by simp
  next
    case False
    with Cons have "filter (\<lambda>y. f y = f x) ys = [x]" and "f y \<noteq> f x"
      by (force simp add: image_iff)+
    then show ?thesis by simp
  qed
qed

lemma filter_map_preserved:
  "\<forall>x \<in> set xs. f (g x) = f x \<Longrightarrow>
     filter (\<lambda>y. f y = a) (map g xs) = map g (filter (\<lambda>y. f y = a) xs)"
  by (induction xs) auto

lemma map_of_filter_key:
  "map_of (filter (\<lambda>(k, v). Q k) xs) k = (if Q k then map_of xs k else None)"
  by (induction xs) auto

lemma column_lookup:
  "map_of (map (\<lambda>(c, not_null, d). (c, F c d)) cols) k =
     map_option (\<lambda>(not_null, d). F k d) (map_of cols k)"
  by (induction cols) auto

lemma new_row_id: "map_of (new_row db_now i data) ''id'' = Some (PInt i)"
  by (simp add: new_row_def)

lemma column_data_keys:
  "map fst (column_data now t amount bb ba fees) =
     [''transaction_id'', ''amount'', ''currency'', ''transaction_date'', ''transaction_type'',
      ''category'', ''sender_phone'', ''receiver_phone'', ''sender_network'',
      ''receiver_network'', ''description'', ''balance_before'', ''balance_after'', ''fees'',
      ''status'', ''created_at'']"
  by (simp add: column_data_def)

lemma column_names:
  "map fst TRANSACTIONS_COLUMNS =
     [''transaction_id'', ''amount'', ''currency'', ''transaction_date'', ''transaction_type'',
      ''category'', ''sender_phone'', ''receiver_phone'', ''sender_network'',
      ''receiver_network'', ''description'', ''balance_before'', ''balance_after'', ''fees'',
      ''status'', ''created_at'', ''updated_at'']"
  by (simp add: TRANSACTIONS_COLUMNS_def)

lemma column_data_distinct: "distinct (map fst (column_data now t amount bb ba fees))"
  by (simp add: column_data_keys)

lemma column_data_is_column:
  assumes "k \<in> fst ` set (column_data now t amount bb ba fees)"
  shows "k \<in> fst ` set TRANSACTIONS_COLUMNS" and "k \<noteq> ''id''" and "k \<noteq> ''updated_at''"
proof -
  from assms have k: "k \<in> set (map fst (column_data now t amount bb ba fees))"
    by simp
  have "set (map fst (column_data now t amount bb ba fees)) \<subseteq> set (map fst TRANSACTIONS_COLUMNS)"
    unfolding column_data_keys column_names by (simp add: subset_iff)
  with k show "k \<in> fst ` set TRANSACTIONS_COLUMNS"
    by auto
  from k show "k \<noteq> ''id''"
    unfolding column_data_keys by auto
  from k show "k \<noteq> ''updated_at''"
    unfolding column_data_keys by auto
qed

lemma prepare_shape:
  assumes "prepare_transaction_data L now t = Inr data"
  shows "\<exists>amount bb ba fees.
    data = filter (\<lambda>(k, v). v \<noteq> PNone) (column_data now t amount bb ba fees)"
  using assms
  by (auto simp add: prepare_transaction_data_def split: sum.splits)

lemma prepare_distinct:
  assumes "prepare_transaction_data L now t = Inr data"
  shows "distinct (map fst data)"
  using prepare_shape [OF assms] column_data_distinct
  by (auto intro: distinct_map_filter)

lemma prepare_is_column:
  assumes "prepare_transaction_data L now t = Inr data" and "k \<in> fst ` set data"
  shows "k \<in> fst ` set TRANSACTIONS_COLUMNS" and "k \<noteq> ''id''" and "k \<noteq> ''updated_at''"
proof -
  from prepare_shape [OF assms(1)] obtain amount bb ba fees where
    "data = filter (\<lambda>(k, v). v \<noteq> PNone) (column_data now t amount bb ba fees)"
    by blast
  with assms(2) have "k \<in> fst ` set (column_data now t amount bb ba fees)"
    by auto
  then show "k \<in> fst ` set TRANSACTIONS_COLUMNS" and "k \<noteq> ''id''" and "k \<noteq> ''updated_at''"
    by (rule column_data_is_column)+
qed

lemma prepare_not_none:
  assumes "prepare_transaction_data L now t = Inr data" and "(k, v) \<in> set data"
  shows "v \<noteq> PNone"
  using prepare_shape [OF assms(1)] assms(2) by auto

lemma prepare_lookup:
  assumes "prepare_transaction_data L now t = Inr data"
    and "(k, v) \<in> set (column_data now t amount bb ba fees)" and "v \<noteq> PNone"
    and "k \<noteq> ''amount''" "k \<noteq> ''balance_before''" "k \<noteq> ''balance_after''" "k \<noteq> ''fees''"
  shows "map_of data k = Some v"
proof -
  from prepare_shape [OF assms(1)] obtain amount' bb' ba' fees' where
    data: "data = filter (\<lambda>(k, v). v \<noteq> PNone) (column_data now t amount' bb' ba' fees')"
    by blast
  from assms(2,4-7) have "(k, v) \<in> set (column_data now t amount' bb' ba' fees')"
    by (auto simp add: column_data_def)
  with assms(3) have "(k, v) \<in> set data"
    by (simp add: data)
  then show ?thesis
    using prepare_distinct [OF assms(1)] by simp
qed

lemma prepare_transaction_id:
  assumes "prepare_transaction_data L now t = Inr data"
    and "map_of t ''transaction_id'' = Some (PStr tid)"
  shows "map_of data ''transaction_id'' = Some (PStr tid)"
  by (rule prepare_lookup [OF assms(1), of _ _ 0 PNone PNone PNone])
    (simp_all add: column_data_def dict_get_def assms(2))

lemma prepare_created_at:
  assumes "prepare_transaction_data L now t = Inr data"
    and "map_of t ''created_at'' = None"
  shows "map_of data ''created_at'' = Some (PStr now)"
  by (rule prepare_lookup [OF assms(1), of _ _ 0 PNone PNone PNone])
    (simp_all add: column_data_def dict_get_def assms(2))

lemma new_row_data:
  assumes "map_of data k = Some v" and "k \<in> fst ` set TRANSACTIONS_COLUMNS"
  shows "map_of (new_row db_now i data) k = Some v"
proof -
  from assms(2) have "k \<in> set (map fst TRANSACTIONS_COLUMNS)"
    by simp
  then have "k \<noteq> ''id''"
    unfolding column_names by auto
  moreover from assms(2) obtain nd where "map_of TRANSACTIONS_COLUMNS k = Some nd"
    by (metis map_of_eq_None_iff not_Some_eq)
  ultimately show ?thesis
    using assms(1) by (simp add: new_row_def column_lookup split: prod.splits)
qed

lemma select_id_none:
  assumes "select_id db (PStr tid) = None"
  shows "rows_with db tid = []"
  using assms by (simp add: select_id_def rows_with_def split: list.splits)

lemma select_id_some:
  assumes "select_id db (PStr tid) = Some rowid"
  shows "\<exists>r \<in> set (rows db). map_of r ''transaction_id'' = Some (PStr tid)
     \<and> rowid = dict_get r ''id'' PNone"
proof -
  from assms obtain r rs where
    f: "filter (\<lambda>r. map_of r ''transaction_id'' = Some (PStr tid)) (rows db) = r # rs"
    and rowid: "rowid = dict_get r ''id'' PNone"
    by (auto simp add: select_id_def split: list.splits)
  from f have "r \<in> set (filter (\<lambda>r. map_of r ''transaction_id'' = Some (PStr tid)) (rows db))"
    by simp
  with rowid show ?thesis by auto
qed

lemma table_ok_row_id:
  assumes "table_ok db" and "r \<in> set (rows db)"
  shows "\<exists>i. map_of r ''id'' = Some (PInt i) \<and> i \<le> last_id db"
proof -
  from assms have "case map_of r ''id'' of Some (PInt i) \<Rightarrow> i \<le> last_id db | _ \<Rightarrow> False"
    by (simp add: table_ok_def list_all_iff)
  then show ?thesis
    by (cases "map_of r ''id''") (auto split: pyval.splits)
qed

lemma table_ok_same_id:
  assumes "table_ok db" and "r \<in> set (rows db)" and "r' \<in> set (rows db)"
    and "map_of r' ''id'' = map_of r ''id''"
  shows "r' = r"
proof -
  from assms(1) have "inj_on (\<lambda>r. map_of r ''id'') (set (rows db))"
    by (simp add: table_ok_def distinct_map)
  with assms(2-4) show ?thesis
    by (auto dest: inj_onD)
qed

lemma table_ok_rows_with:
  assumes "table_ok db" and "r \<in> set (rows db)"
    and "map_of r ''transaction_id'' = Some (PStr tid)"
  shows "rows_with db tid = [r]"
proof -
  from assms(1) have "distinct (map (\<lambda>r. map_of r ''transaction_id'') (rows db))"
    by (simp add: table_ok_def)
  from filter_distinct_single [OF this assms(2)] show ?thesis
    by (simp add: rows_with_def assms(3))
qed

lemma updated_row:
  assumes "prepare_transaction_data L now t = Inr data"
  shows "map_of (assign (filter (\<lambda>(k, v). k \<noteq> ''id'')
                   (AList.update ''updated_at'' (PStr now) data)) r) k =
    (if k = ''id'' then map_of r ''id''
     else if k = ''updated_at'' then Some (PStr now)
     else case map_of data k of Some v \<Rightarrow> Some v | None \<Rightarrow> map_of r k)"
proof -
  let ?as = "filter (\<lambda>(k, v). k \<noteq> ''id'') (AList.update ''updated_at'' (PStr now) data)"
  have "distinct (map fst (AList.update ''updated_at'' (PStr now) data))"
    using prepare_distinct [OF assms] by (rule distinct_update)
  then have "distinct (map fst ?as)"
    by (rule distinct_map_filter)
  then have "map_of (assign ?as r) k =
      (case map_of ?as k of Some v \<Rightarrow> Some v | None \<Rightarrow> map_of r k)"
    by (rule assign_lookup)
  moreover have "map_of ?as k =
      (if k \<noteq> ''id'' then ((map_of data)(''updated_at'' \<mapsto> PStr now)) k else None)"
    by (simp only: map_of_filter_key update_conv')
  ultimately show ?thesis
    by (simp split: option.splits)
qed

lemma upsert_success:
  assumes "map_of t ''transaction_id'' = Some (PStr tid)"
    and "upsert_transaction L now db_now db t = (True, db')"
  shows "\<exists>data. prepare_transaction_data L now t = Inr data \<and>
     ((\<exists>r \<in> set (rows db). map_of r ''transaction_id'' = Some (PStr tid)
         \<and> db' = sql_update db
                  (filter (\<lambda>(k, v). k \<noteq> ''id'') (AList.update ''updated_at'' (PStr now) data))
                  (dict_get r ''id'' PNone))
      \<or> (rows_with db tid = [] \<and> sql_insert db_now db data = Inr db'))"
proof -
  from assms(2) have st: "upsert_statements L now db_now db t = Inr db'"
    by (auto simp add: upsert_transaction_def split: sum.splits)
  from assms(1) have item: "dict_item t ''transaction_id'' = Inr (PStr tid)"
    by (simp add: dict_item_def)
  from st item obtain data where data: "prepare_transaction_data L now t = Inr data"
    by (auto simp add: upsert_statements_def Let_def split: sum.splits)
  show ?thesis
  proof (cases "select_id db (PStr tid)")
    case None
    with st item data have "sql_insert db_now db data = Inr db'"
      by (simp add: upsert_statements_def)
    with select_id_none [OF None] data show ?thesis
      by blast
  next
    case (Some rowid)
    with st item data have "db' = sql_update db
        (filter (\<lambda>(k, v). k \<noteq> ''id'') (AList.update ''updated_at'' (PStr now) data)) rowid"
      by (simp add: upsert_statements_def)
    with select_id_some [OF Some] data show ?thesis
      by blast
  qed
qed

lemma update_branch:
  assumes ok: "table_ok db"
    and tid: "map_of t ''transaction_id'' = Some (PStr tid)"
    and data: "prepare_transaction_data L now t = Inr data"
    and r: "r \<in> set (rows db)" "map_of r ''transaction_id'' = Some (PStr tid)"
    and db': "db' = sql_update db
                  (filter (\<lambda>(k, v). k \<noteq> ''id'') (AList.update ''updated_at'' (PStr now) data))
                  (dict_get r ''id'' PNone)"
  shows "table_ok db'"
    and "rows_with db' tid =
      [assign (filter (\<lambda>(k, v). k \<noteq> ''id'') (AList.update ''updated_at'' (PStr now) data)) r]"
    and "length (rows db') = length (rows db)"
proof -
  let ?as = "filter (\<lambda>(k, v). k \<noteq> ''id'') (AList.update ''updated_at'' (PStr now) data)"
  let ?rowid = "dict_get r ''id'' PNone"
  let ?g = "\<lambda>r'. if map_of r' ''id'' = Some ?rowid then assign ?as r' else r'"
  from table_ok_row_id [OF ok r(1)] obtain i where i: "map_of r ''id'' = Some (PInt i)"
    by blast
  then have rowid: "map_of r ''id'' = Some ?rowid"
    by (simp add: dict_get_def)
  have rows': "rows db' = map ?g (rows db)" and last': "last_id db' = last_id db"
    by (simp_all add: db' sql_update_def)
  have same: "r' = r" if "r' \<in> set (rows db)" "map_of r' ''id'' = Some ?rowid" for r'
    using table_ok_same_id [OF ok r(1) that(1)] that(2) rowid by simp
  have keep_id: "map_of (?g r') ''id'' = map_of r' ''id''" for r'
    by (simp add: updated_row [OF data])
  have data_tid: "map_of data ''transaction_id'' = Some (PStr tid)"
    using data tid by (rule prepare_transaction_id)
  have keep_tid: "map_of (?g r') ''transaction_id'' = map_of r' ''transaction_id''"
    if "r' \<in> set (rows db)" for r'
  proof (cases "map_of r' ''id'' = Some ?rowid")
    case True
    with that have "r' = r" by (rule same)
    with True show ?thesis
      by (simp add: updated_row [OF data] data_tid r(2))
  next
    case False
    then show ?thesis by simp
  qed
  have ids: "map (\<lambda>r. map_of r ''id'') (rows db') = map (\<lambda>r. map_of r ''id'') (rows db)"
    unfolding rows' by (simp add: keep_id)
  have tids: "map (\<lambda>r. map_of r ''transaction_id'') (rows db')
      = map (\<lambda>r. map_of r ''transaction_id'') (rows db)"
    unfolding rows' using keep_tid by (simp)
  have "list_all (\<lambda>r. case map_of r ''id'' of Some (PInt i) \<Rightarrow> i \<le> last_id db | _ \<Rightarrow> False)
     (map ?g (rows db))
    = list_all (\<lambda>r. case map_of r ''id'' of Some (PInt i) \<Rightarrow> i \<le> last_id db | _ \<Rightarrow> False)
     (rows db)"
    by (simp only: list.pred_map comp_def keep_id)
  then have "list_all (\<lambda>r. case map_of r ''id'' of Some (PInt i) \<Rightarrow> i \<le> last_id db' | _ \<Rightarrow> False)
     (rows db')"
    using ok unfolding rows' last' by (simp only: table_ok_def)
  with ok ids tids show "table_ok db'"
    by (simp add: table_ok_def)
  have "rows_with db' tid = map ?g (rows_with db tid)"
    unfolding rows_with_def rows'
    by (rule filter_map_preserved) (simp add: keep_tid)
  also have "rows_with db tid = [r]"
    using ok r by (rule table_ok_rows_with)
  finally show "rows_with db' tid = [assign ?as r]"
    by (simp add: rowid)
  show "length (rows db') = length (rows db)"
    by (simp add: rows')
qed

lemma insert_branch:
  assumes ok: "table_ok db"
    and tid: "map_of t ''transaction_id'' = Some (PStr tid)"
    and data: "prepare_transaction_data L now t = Inr data"
    and none: "rows_with db tid = []"
    and ins: "sql_insert db_now db data = Inr db'"
  shows "table_ok db'"
    and "rows_with db' tid = [new_row db_now (last_id db + 1) data]"
    and "length (rows db') = Suc (length (rows db))"
proof -
  let ?r = "new_row db_now (last_id db + 1) data"
  from ins have unique:
      "\<not> list_ex (\<lambda>r'. map_of r' ''transaction_id'' = map_of ?r ''transaction_id'') (rows db)"
    and db': "db' = db\<lparr>rows := rows db @ [?r], last_id := last_id db + 1\<rparr>"
    by (auto simp add: sql_insert_def Let_def split: if_splits)
  have rows': "rows db' = rows db @ [?r]" and last': "last_id db' = last_id db + 1"
    by (simp_all add: db')
  have r_tid: "map_of ?r ''transaction_id'' = Some (PStr tid)"
    by (rule new_row_data [OF prepare_transaction_id [OF data tid]])
      (simp add: TRANSACTIONS_COLUMNS_def)
  have r_id: "map_of ?r ''id'' = Some (PInt (last_id db + 1))"
    by (rule new_row_id)
  have below: "\<exists>i. map_of r' ''id'' = Some (PInt i) \<and> i \<le> last_id db"
    if "r' \<in> set (rows db)" for r'
    using ok that by (rule table_ok_row_id)
  have "map_of ?r ''id'' \<notin> (\<lambda>r. map_of r ''id'') ` set (rows db)"
    using below r_id by force
  then have ids: "distinct (map (\<lambda>r. map_of r ''id'') (rows db'))"
    using ok by (simp add: rows' table_ok_def)
  have "map_of ?r ''transaction_id'' \<notin> (\<lambda>r. map_of r ''transaction_id'') ` set (rows db)"
    using unique by (auto simp add: list_ex_iff)
  then have tids: "distinct (map (\<lambda>r. map_of r ''transaction_id'') (rows db'))"
    using ok by (simp add: rows' table_ok_def)
  have "list_all (\<lambda>r. case map_of r ''id'' of Some (PInt i) \<Rightarrow> i \<le> last_id db' | _ \<Rightarrow> False)
     (rows db')"
    unfolding rows' last' using below r_id
    by (fastforce simp add: list_all_iff)
  with ids tids show "table_ok db'"
    by (simp add: table_ok_def)
  show "rows_with db' tid = [?r]"
    using none r_tid by (simp add: rows_with_def rows')
  show "length (rows db') = Suc (length (rows db))"
    by (simp add: rows')
qed

lemma upsert_row:
  assumes ok: "table_ok db"
    and tid: "map_of t ''transaction_id'' = Some (PStr tid)"
    and up: "upsert_transaction L now db_now db t = (True, db')"
  shows "table_ok db'"
    and "\<exists>r data. rows_with db' tid = [r] \<and> prepare_transaction_data L now t = Inr data
          \<and> (\<forall>(k, v) \<in> set data. map_of r k = Some v)"
    and "rows_with db tid \<noteq> [] \<Longrightarrow>
          length (rows db') = length (rows db)
          \<and> (\<exists>r r0. rows_with db' tid = [r] \<and> rows_with db tid = [r0]
                \<and> map_of r ''id'' = map_of r0 ''id''
                \<and> map_of r ''updated_at'' = Some (PStr now))"
proof -
  from upsert_success [OF tid up] obtain data where
    data: "prepare_transaction_data L now t = Inr data"
    and branch: "(\<exists>r \<in> set (rows db). map_of r ''transaction_id'' = Some (PStr tid)
         \<and> db' = sql_update db
                  (filter (\<lambda>(k, v). k \<noteq> ''id'') (AList.update ''updated_at'' (PStr now) data))
                  (dict_get r ''id'' PNone))
      \<or> (rows_with db tid = [] \<and> sql_insert db_now db data = Inr db')"
    by blast
  have entry: "map_of data k = Some v \<and> k \<noteq> ''id'' \<and> k \<noteq> ''updated_at''
      \<and> k \<in> fst ` set TRANSACTIONS_COLUMNS" if "(k, v) \<in> set data" for k v
  proof -
    from that have "k \<in> fst ` set data" by force
    from prepare_is_column [OF data this] that prepare_distinct [OF data]
    show ?thesis by simp
  qed
  from branch show "table_ok db'"
    using update_branch(1) [OF ok tid data] insert_branch(1) [OF ok tid data]
    by blast
  from branch
  show "\<exists>r data. rows_with db' tid = [r] \<and> prepare_transaction_data L now t = Inr data
          \<and> (\<forall>(k, v) \<in> set data. map_of r k = Some v)"
  proof
    assume "\<exists>r \<in> set (rows db). map_of r ''transaction_id'' = Some (PStr tid)
         \<and> db' = sql_update db
                  (filter (\<lambda>(k, v). k \<noteq> ''id'') (AList.update ''updated_at'' (PStr now) data))
                  (dict_get r ''id'' PNone)"
    then obtain r where r: "r \<in> set (rows db)" "map_of r ''transaction_id'' = Some (PStr tid)"
      "db' = sql_update db
                  (filter (\<lambda>(k, v). k \<noteq> ''id'') (AList.update ''updated_at'' (PStr now) data))
                  (dict_get r ''id'' PNone)"
      by blast
    let ?r = "assign (filter (\<lambda>(k, v). k \<noteq> ''id'')
                (AList.update ''updated_at'' (PStr now) data)) r"
    have "rows_with db' tid = [?r]"
      using ok tid data r by (rule update_branch(2))
    moreover have "\<forall>(k, v) \<in> set data. map_of ?r k = Some v"
      using entry by (auto simp add: updated_row [OF data])
    ultimately show ?thesis
      using data by blast
  next
    assume "rows_with db tid = [] \<and> sql_insert db_now db data = Inr db'"
    then have "rows_with db' tid = [new_row db_now (last_id db + 1) data]"
      using insert_branch(2) [OF ok tid data] by blast
    moreover have "\<forall>(k, v) \<in> set data. map_of (new_row db_now (last_id db + 1) data) k = Some v"
      using entry by (auto intro: new_row_data)
    ultimately show ?thesis
      using data by blast
  qed
  show "length (rows db') = length (rows db)
          \<and> (\<exists>r r0. rows_with db' tid = [r] \<and> rows_with db tid = [r0]
                \<and> map_of r ''id'' = map_of r0 ''id''
                \<and> map_of r ''updated_at'' = Some (PStr now))"
    if "rows_with db tid \<noteq> []"
  proof -
    from that branch obtain r where r: "r \<in> set (rows db)"
      "map_of r ''transaction_id'' = Some (PStr tid)"
      "db' = sql_update db
                  (filter (\<lambda>(k, v). k \<noteq> ''id'') (AList.update ''updated_at'' (PStr now) data))
                  (dict_get r ''id'' PNone)"
      by blast
    let ?r = "assign (filter (\<lambda>(k, v). k \<noteq> ''id'')
                (AList.update ''updated_at'' (PStr now) data)) r"
    have "rows_with db' tid = [?r]"
      using ok tid data r by (rule update_branch(2))
    moreover have "rows_with db tid = [r]"
      using ok r(1,2) by (rule table_ok_rows_with)
    moreover have "map_of ?r ''id'' = map_of r ''id''"
      and "map_of ?r ''updated_at'' = Some (PStr now)"
      by (simp_all add: updated_row [OF data])
    moreover have "length (rows db') = length (rows db)"
      using ok tid data r by (rule update_branch(3))
    ultimately show ?thesis
      by blast
  qed
qed
subsection \<open>The sample run\<close>


lemma sample_second_upsert:
  "upsert_transaction test_lib ''2023-10-17T09:00:00'' ''2023-10-17 06:00:00'' sample_db_first
     sample_second = (True, sample_db_second)"
  by (simp add: sample_second_def sample_db_first_def sample_db_second_def
      upsert_transaction_def upsert_statements_def prepare_transaction_data_def
      column_data_def py_float_def float_if_set_def dict_get_def dict_item_def select_id_def
      sql_update_def assign_def)


lemma table_ok_sample_db_first: "table_ok sample_db_first"
  by (simp add: table_ok_def sample_db_first_def)

subsection \<open>Upserting twice\<close>




subsection \<open>The creation time stamp\<close>

text \<open>
  Claim C9. When the table holds a row for the \<^verbatim>\<open>transaction_id\<close> and the incoming record
  has no \<^verbatim>\<open>created_at\<close>, a successful upsert updates that row (same \<^verbatim>\<open>id\<close>, no row added)
  and writes the current time into its \<^verbatim>\<open>created_at\<close>, whatever creation time the row had.
\<close>

theorem update_overwrites_created_at:
  assumes "table_ok db"
    and "r0 \<in> set (rows db)"
    and "map_of r0 ''transaction_id'' = Some (PStr tid)"
    and "map_of t ''transaction_id'' = Some (PStr tid)"
    and "map_of t ''created_at'' = None"
    and "upsert_transaction L now db_now db t = (True, db')"
  shows "(\<exists>r. rows_with db' tid = [r]
            \<and> map_of r ''id'' = map_of r0 ''id''
            \<and> map_of r ''created_at'' = Some (PStr now))
       \<and> length (rows db') = length (rows db)"
proof -
  have before: "rows_with db tid = [r0]"
    using assms(1-3) by (rule table_ok_rows_with)
  from upsert_row(2) [OF assms(1,4,6)] obtain r data where
    r: "rows_with db' tid = [r]" "prepare_transaction_data L now t = Inr data"
      "\<forall>(k, v) \<in> set data. map_of r k = Some v"
    by blast
  from prepare_created_at [OF r(2) assms(5)]
  have "(''created_at'', PStr now) \<in> set data"
    by (rule map_of_SomeD)
  with r(3) have created: "map_of r ''created_at'' = Some (PStr now)"
    by auto
  from upsert_row(3) [OF assms(1,4,6)] before r(1)
  have "length (rows db') = length (rows db)" and "map_of r ''id'' = map_of r0 ''id''"
    by auto
  with r(1) created show ?thesis
    by blast
qed

theorem update_overwrites_created_at_witness:
  "map (\<lambda>r. map_of r ''created_at'') (rows_with sample_db_first ''tx001'')
     = [Some (PStr ''2023-10-16T08:00:00'')]
   \<and> upsert_transaction test_lib ''2023-10-17T09:00:00'' ''2023-10-17 06:00:00''
       sample_db_first sample_second = (True, sample_db_second)
   \<and> map (\<lambda>r. (map_of r ''id'', map_of r ''created_at''))
       (rows_with sample_db_second ''tx001'')
     = [(Some (PInt 1), Some (PStr ''2023-10-17T09:00:00''))]
   \<and> length (rows sample_db_second) = length (rows sample_db_first)"
proof -
  let ?r0 = "hd (rows sample_db_first)"
  have r0: "?r0 \<in> set (rows sample_db_first)"
    "map_of ?r0 ''transaction_id'' = Some (PStr ''tx001'')" "map_of ?r0 ''id'' = Some (PInt 1)"
    by (simp_all add: sample_db_first_def)
  have t: "map_of sample_second ''transaction_id'' = Some (PStr ''tx001'')"
    "map_of sample_second ''created_at'' = None"
    by (simp_all add: sample_second_def)
  have before: "map (\<lambda>r. map_of r ''created_at'') (rows_with sample_db_first ''tx001'')
     = [Some (PStr ''2023-10-16T08:00:00'')]"
    by (simp add: sample_db_first_def rows_with_def)
  from update_overwrites_created_at
    [OF table_ok_sample_db_first r0(1,2) t sample_second_upsert]
  show ?thesis
    using before sample_second_upsert r0(3) by auto
qed

end
